theory Spec2Isabelle
  imports Main "HOL-Library.Sublist"
begin

section \<open>JavaScript values seen by \<open>Completion.log\<close>\<close>

text \<open>
  TypeScript types are erased at run time, and the test suite calls \<open>log({})\<close>, so every
  field of \<open>CompletionOptions\<close> may be \<open>undefined\<close> when \<open>log\<close> runs: each field is
  an option, \<open>None\<close> for \<open>undefined\<close> (the field \<open>output\<close> is \<open>output_field\<close>:
  \<open>output\<close> is a keyword of Isabelle). The message type (\<open>ChatCompletionMessageParam\<close>)
  and the values of \<open>Record<string, unknown>\<close> are opaque to the library: they are the
  type parameters \<open>'m\<close> and \<open>'v\<close>.
\<close>

record ('m, 'v) CompletionOptions =
  logId :: "string option"
  templateName :: "string option"
  promptTemplate :: "string option"
  messagesTemplate :: "'m list option"
  promptArguments :: "(string \<times> 'v) list option"
  model :: "string option"
  modelArguments :: "(string \<times> 'v) list option"
  output_field :: "string option"
  compiledPrompt :: "string option"
  compiledMessages :: "'m list option"
  metadata :: "(string \<times> 'v) list option"
  parser :: "string option"

text \<open>
  The local variables that \<open>log\<close> destructures from its argument, and the values of the
  payload object, are JavaScript values of four shapes.
\<close>

datatype ('m, 'v) js_value =
    Undefined
  | JString string
  | JArray "'m list"
  | JObject "(string \<times> 'v) list"

definition of_string :: "string option \<Rightarrow> ('m, 'v) js_value" where
  "of_string x = (case x of None \<Rightarrow> Undefined | Some s \<Rightarrow> JString s)"

definition of_array :: "'m list option \<Rightarrow> ('m, 'v) js_value" where
  "of_array x = (case x of None \<Rightarrow> Undefined | Some a \<Rightarrow> JArray a)"

definition of_record :: "(string \<times> 'v) list option \<Rightarrow> ('m, 'v) js_value" where
  "of_record x = (case x of None \<Rightarrow> Undefined | Some kvs \<Rightarrow> JObject kvs)"

text \<open>
  JavaScript truthiness, as \<open>!x\<close> tests it: \<open>undefined\<close> and the empty string are
  falsy; every array and every object is truthy, the empty array included.
\<close>

fun truthy :: "('m, 'v) js_value \<Rightarrow> bool" where
  "truthy Undefined = False"
| "truthy (JString s) = (s \<noteq> [])"
| "truthy (JArray a) = True"
| "truthy (JObject kvs) = True"

section \<open>The class \<open>Completion\<close>\<close>

datatype error = Error string

record Completion =
  apiKey :: string
  apiUrl :: string

text \<open>
  The constructor's argument \<open>options?: { apiKey?: string; apiUrl?: string }\<close>; the
  argument itself may be missing (\<open>None\<close>).
\<close>

record constructor_options =
  options_apiKey :: "string option"
  options_apiUrl :: "string option"

text \<open>\<open>a ?? b\<close>: \<open>b\<close> when \<open>a\<close> is \<open>undefined\<close>, else \<open>a\<close> (an empty string is kept).\<close>

definition nullish :: "'a option \<Rightarrow> 'a option \<Rightarrow> 'a option" where
  "nullish a b = (case a of None \<Rightarrow> b | Some x \<Rightarrow> Some x)"

text \<open>
  The constructor. \<open>DEFAULT_API_URL\<close> is imported from \<open>./constants\<close> and is a
  parameter here, as is the value of \<open>process.env.COMPLETION_API_KEY\<close>
  (\<open>None\<close> when the variable is not set). \<open>Inl\<close> is the thrown error.
\<close>

definition constructor ::
  "string \<Rightarrow> string option \<Rightarrow> constructor_options option \<Rightarrow> error + Completion" where
  "constructor DEFAULT_API_URL COMPLETION_API_KEY options =
     (let this_apiKey =
            (case nullish (nullish (Option.bind options options_apiKey) COMPLETION_API_KEY)
                    (Some [])
             of Some k \<Rightarrow> k | None \<Rightarrow> [])
      in if length this_apiKey = 0
         then Inl (Error ''API key is missing. Please provide an API key or set the COMPLETION_API_KEY environment variable.'')
         else Inr \<lparr>apiKey = this_apiKey,
                   apiUrl = (case nullish (Option.bind options options_apiUrl)
                                          (Some DEFAULT_API_URL)
                             of Some u \<Rightarrow> u | None \<Rightarrow> DEFAULT_API_URL)\<rparr>)"

section \<open>The collaborators of \<open>log\<close> and its effects\<close>

type_synonym ('m, 'v) payload = "(string \<times> ('m, 'v) js_value) list"

type_synonym headers = "(string \<times> string) list"

datatype 'd response = Response (data: 'd)

text \<open>
  The world \<open>log\<close> runs in: \<open>uuidv4\<close> is the string the identifier generator returns
  when it is called, \<open>axios_post url payload headers\<close> is the outcome of the request,
  \<open>Inl\<close> the error the promise rejects with, \<open>Inr\<close> the response it resolves with.
\<close>

record ('m, 'v, 'e, 'd) world =
  uuidv4 :: string
  axios_post :: "string \<Rightarrow> ('m, 'v) payload \<Rightarrow> headers \<Rightarrow> 'e + 'd response"

text \<open>What \<open>log\<close> does to the outside, in the order it does it.\<close>

datatype ('m, 'v, 'e, 'd) effect =
    Uuidv4_call
  | Axios_post string "('m, 'v) payload" headers
  | Console_log string 'd
  | Console_error string 'e

section \<open>\<open>Completion.log\<close>\<close>

text \<open>
  The result is the outcome of the promise (\<open>Inl\<close>: rejected with the thrown error,
  \<open>Inr ()\<close>: resolved) and the effects performed. The default \<open>logId = uuidv4()\<close> of the
  destructuring pattern is evaluated while the argument is destructured, when
  \<open>options.logId\<close> is \<open>undefined\<close>; the three checks follow it.
\<close>

definition log ::
  "Completion \<Rightarrow> ('m, 'v, 'e, 'd) world \<Rightarrow> ('m, 'v) CompletionOptions
     \<Rightarrow> (error + unit) \<times> ('m, 'v, 'e, 'd) effect list" where
  "log this w options =
     (let (logId', destructuring) =
            (case logId options of
               None \<Rightarrow> (uuidv4 w, [Uuidv4_call])
             | Some l \<Rightarrow> (l, []));
          templateName' = of_string (templateName options);
          promptTemplate' = of_string (promptTemplate options);
          messagesTemplate' = of_array (messagesTemplate options);
          promptArguments' = of_record (promptArguments options);
          model' = of_string (model options);
          modelArguments' = of_record (modelArguments options);
          output' = of_string (output_field options);
          compiledPrompt' = of_string (compiledPrompt options);
          compiledMessages' = of_array (compiledMessages options);
          metadata' = of_record (metadata options);
          parser' = of_string (parser options)
      in
      if \<not> truthy templateName' then
        (Inl (Error ''Template name is required.''), destructuring)
      else if \<not> truthy promptTemplate' \<and> \<not> truthy messagesTemplate' \<and>
              \<not> truthy compiledPrompt' \<and> \<not> truthy compiledMessages' then
        (Inl (Error ''Either promptTemplate, messagesTemplate, compiledPrompt, or compiledMessages is required.''),
         destructuring)
      else if length (filter (\<lambda>x. x \<noteq> Undefined)
                 [promptTemplate', messagesTemplate', compiledPrompt', compiledMessages']) > 1 then
        (Inl (Error ''Only one of promptTemplate, messagesTemplate, compiledPrompt, or compiledMessages is allowed.''),
         destructuring)
      else
        (let payload =
               [(''log_id'', JString logId'),
                (''template_name'', templateName'),
                (''prompt_template'', promptTemplate'),
                (''messages_template'', messagesTemplate'),
                (''prompt_arguments'', promptArguments'),
                (''model'', model'),
                (''model_arguments'', modelArguments'),
                (''output'', output'),
                (''compiled_prompt'', compiledPrompt'),
                (''compiled_messages'', compiledMessages'),
                (''metadata'', metadata'),
                (''parser'', parser')];
             headers = [(''Authorization'', ''Bearer '' @ apiKey this)]
         in case axios_post w (apiUrl this) payload headers of
              Inr response \<Rightarrow>
                (Inr (),
                 destructuring @
                 [Axios_post (apiUrl this) payload headers,
                  Console_log ''Completion logged successfully:'' (data response)])
            | Inl error \<Rightarrow>
                (Inr (),
                 destructuring @
                 [Axios_post (apiUrl this) payload headers,
                  Console_error ''Error logging completion:'' error])))"

section \<open>Observing the effects\<close>

fun posts :: "('m, 'v, 'e, 'd) effect list \<Rightarrow> (string \<times> ('m, 'v) payload \<times> headers) list" where
  "posts [] = []"
| "posts (Axios_post url body hs # es) = (url, body, hs) # posts es"
| "posts (e # es) = posts es"

fun console :: "('m, 'v, 'e, 'd) effect list \<Rightarrow> ('m, 'v, 'e, 'd) effect list" where
  "console [] = []"
| "console (Console_log label d # es) = Console_log label d # console es"
| "console (Console_error label e # es) = Console_error label e # console es"
| "console (e # es) = console es"

fun uuid_calls :: "('m, 'v, 'e, 'd) effect list \<Rightarrow> nat" where
  "uuid_calls [] = 0"
| "uuid_calls (Uuidv4_call # es) = Suc (uuid_calls es)"
| "uuid_calls (e # es) = uuid_calls es"

section \<open>The rules of the specification\<close>

text \<open>
  A field is present when it is not \<open>undefined\<close>. \<open>present_sources\<close> counts the fields
  present among \<open>promptTemplate\<close>, \<open>messagesTemplate\<close>, \<open>compiledPrompt\<close> and
  \<open>compiledMessages\<close>; \<open>nonempty_sources\<close> counts those present and not the empty
  string.
\<close>

definition count_true :: "bool list \<Rightarrow> nat" where
  "count_true bs = length (filter (\<lambda>b. b) bs)"

definition present_sources :: "('m, 'v) CompletionOptions \<Rightarrow> nat" where
  "present_sources r =
     count_true [promptTemplate r \<noteq> None, messagesTemplate r \<noteq> None,
                 compiledPrompt r \<noteq> None, compiledMessages r \<noteq> None]"

definition nonempty_sources :: "('m, 'v) CompletionOptions \<Rightarrow> nat" where
  "nonempty_sources r =
     count_true [promptTemplate r \<noteq> None \<and> promptTemplate r \<noteq> Some [],
                 messagesTemplate r \<noteq> None,
                 compiledPrompt r \<noteq> None \<and> compiledPrompt r \<noteq> Some [],
                 compiledMessages r \<noteq> None]"

text \<open>Rule 1: \<open>templateName\<close> is present and non-empty.\<close>

definition rule_template_name :: "('m, 'v) CompletionOptions \<Rightarrow> bool" where
  "rule_template_name r = (templateName r \<noteq> None \<and> templateName r \<noteq> Some [])"

text \<open>Rule 2, as the specification words it: at least one of the four fields is present.\<close>

definition rule_at_least_one :: "('m, 'v) CompletionOptions \<Rightarrow> bool" where
  "rule_at_least_one r = (1 \<le> present_sources r)"

text \<open>Rule 2 with presence read as truthiness: at least one is present and not \<open>""\<close>.\<close>

definition rule_at_least_one_nonempty :: "('m, 'v) CompletionOptions \<Rightarrow> bool" where
  "rule_at_least_one_nonempty r = (1 \<le> nonempty_sources r)"

text \<open>Rule 3: at most one of the four fields is present.\<close>

definition rule_at_most_one :: "('m, 'v) CompletionOptions \<Rightarrow> bool" where
  "rule_at_most_one r = (present_sources r \<le> 1)"

definition msg_template_name :: string where
  "msg_template_name = ''Template name is required.''"

definition msg_required :: string where
  "msg_required = ''Either promptTemplate, messagesTemplate, compiledPrompt, or compiledMessages is required.''"

definition msg_only_one :: string where
  "msg_only_one = ''Only one of promptTemplate, messagesTemplate, compiledPrompt, or compiledMessages is allowed.''"

text \<open>
  Ordered rules, each with its message: the first rule a record violates gives the error,
  and a record that violates none gives no error.
\<close>

fun first_violated :: "(('r \<Rightarrow> bool) \<times> string) list \<Rightarrow> 'r \<Rightarrow> error option" where
  "first_violated [] r = None"
| "first_violated ((rule, msg) # rules) r =
     (if rule r then first_violated rules r else Some (Error msg))"

definition stated_rules :: "((('m, 'v) CompletionOptions \<Rightarrow> bool) \<times> string) list" where
  "stated_rules =
     [(rule_template_name, msg_template_name),
      (rule_at_least_one, msg_required),
      (rule_at_most_one, msg_only_one)]"

definition truthy_rules :: "((('m, 'v) CompletionOptions \<Rightarrow> bool) \<times> string) list" where
  "truthy_rules =
     [(rule_template_name, msg_template_name),
      (rule_at_least_one_nonempty, msg_required),
      (rule_at_most_one, msg_only_one)]"

definition outcome_of :: "error option \<Rightarrow> error + unit" where
  "outcome_of v = (case v of Some e \<Rightarrow> Inl e | None \<Rightarrow> Inr ())"

text \<open>
  A record passes the validation of \<open>log\<close> when none of its three checks throws: the
  template name is non-empty, at least one prompt source is present and not \<open>""\<close>, and
  at most one is present.
\<close>

definition passes_validation :: "('m, 'v) CompletionOptions \<Rightarrow> bool" where
  "passes_validation r =
     (rule_template_name r \<and> rule_at_least_one_nonempty r \<and> rule_at_most_one r)"

subsection \<open>The wire payload of the specification\<close>

text \<open>
  The input record as a JavaScript object, its keys in the order of the interface, with
  \<open>logId\<close> already defaulted; and the renaming table of the specification. Keys that the
  table does not list (\<open>model\<close>, \<open>output\<close>, \<open>metadata\<close>, \<open>parser\<close>) are unchanged.
\<close>

definition record_fields :: "string \<Rightarrow> ('m, 'v) CompletionOptions \<Rightarrow> ('m, 'v) payload" where
  "record_fields the_logId r =
     [(''logId'', JString the_logId),
      (''templateName'', of_string (templateName r)),
      (''promptTemplate'', of_string (promptTemplate r)),
      (''messagesTemplate'', of_array (messagesTemplate r)),
      (''promptArguments'', of_record (promptArguments r)),
      (''model'', of_string (model r)),
      (''modelArguments'', of_record (modelArguments r)),
      (''output'', of_string (output_field r)),
      (''compiledPrompt'', of_string (compiledPrompt r)),
      (''compiledMessages'', of_array (compiledMessages r)),
      (''metadata'', of_record (metadata r)),
      (''parser'', of_string (parser r))]"

definition renaming :: "(string \<times> string) list" where
  "renaming =
     [(''logId'', ''log_id''),
      (''templateName'', ''template_name''),
      (''promptTemplate'', ''prompt_template''),
      (''messagesTemplate'', ''messages_template''),
      (''promptArguments'', ''prompt_arguments''),
      (''modelArguments'', ''model_arguments''),
      (''compiledPrompt'', ''compiled_prompt''),
      (''compiledMessages'', ''compiled_messages'')]"

definition rename :: "string \<Rightarrow> string" where
  "rename k = (case map_of renaming k of Some k' \<Rightarrow> k' | None \<Rightarrow> k)"

definition effective_logId :: "('m, 'v, 'e, 'd) world \<Rightarrow> ('m, 'v) CompletionOptions \<Rightarrow> string" where
  "effective_logId w r = (case logId r of Some l \<Rightarrow> l | None \<Rightarrow> uuidv4 w)"

definition wire_payload ::
  "('m, 'v, 'e, 'd) world \<Rightarrow> ('m, 'v) CompletionOptions \<Rightarrow> ('m, 'v) payload" where
  "wire_payload w r = map (\<lambda>(k, v). (rename k, v)) (record_fields (effective_logId w r) r)"

definition bearer :: "Completion \<Rightarrow> headers" where
  "bearer this = [(''Authorization'', ''Bearer '' @ apiKey this)]"

subsection \<open>The key the constructor resolves, in the words of the specification\<close>

definition resolved_apiKey :: "string option \<Rightarrow> constructor_options option \<Rightarrow> string" where
  "resolved_apiKey COMPLETION_API_KEY options =
     (case Option.bind options options_apiKey of
        Some explicit \<Rightarrow> explicit
      | None \<Rightarrow> (case COMPLETION_API_KEY of Some env \<Rightarrow> env | None \<Rightarrow> []))"

definition resolved_apiUrl :: "string \<Rightarrow> constructor_options option \<Rightarrow> string" where
  "resolved_apiUrl DEFAULT_API_URL options =
     (case Option.bind options options_apiUrl of
        Some explicit \<Rightarrow> explicit
      | None \<Rightarrow> DEFAULT_API_URL)"

section \<open>The inputs of the test suite\<close>

text \<open>
  The logger, the argument \<open>logOptions\<close> and the two stubs of \<open>axios.post\<close> of
  \<open>test/completion.spec.ts\<close>; \<open>no_options\<close> is the object \<open>{}\<close>.
\<close>

definition test_completion :: Completion where
  "test_completion = \<lparr>apiKey = ''test_api_key'', apiUrl = ''http://testurl.com''\<rparr>"

definition no_options :: "(string \<times> string, string) CompletionOptions" where
  "no_options =
     \<lparr>logId = None, templateName = None, promptTemplate = None, messagesTemplate = None,
      promptArguments = None, model = None, modelArguments = None, output_field = None,
      compiledPrompt = None, compiledMessages = None, metadata = None, parser = None\<rparr>"

definition logOptions :: "(string \<times> string, string) CompletionOptions" where
  "logOptions =
     no_options\<lparr>templateName := Some ''testTemplate'',
                promptTemplate := Some ''Hello, {{name}}'',
                promptArguments := Some [(''name'', ''world'')],
                output_field := Some ''Hello, world!'',
                parser := Some ''handlebars'',
                model := Some ''test_model''\<rparr>"

definition resolving_world :: "(string \<times> string, string, string, string) world" where
  "resolving_world =
     \<lparr>uuidv4 = ''110ec58a-a0f2-4ac4-8393-c866d813b8d1'',
      axios_post = (\<lambda>url body hs. Inr (Response ''Success''))\<rparr>"

definition rejecting_world :: "(string \<times> string, string, string, string) world" where
  "rejecting_world =
     \<lparr>uuidv4 = ''110ec58a-a0f2-4ac4-8393-c866d813b8d1'',
      axios_post = (\<lambda>url body hs. Inl ''Network Error'')\<rparr>"

text \<open>Records with an empty string as prompt source.\<close>

definition empty_template :: "(string \<times> string, string) CompletionOptions" where
  "empty_template = no_options\<lparr>templateName := Some ''testTemplate'', promptTemplate := Some []\<rparr>"

definition two_empty :: "(string \<times> string, string) CompletionOptions" where
  "two_empty =
     no_options\<lparr>templateName := Some ''testTemplate'', promptTemplate := Some [],
                compiledPrompt := Some []\<rparr>"

definition two_sources :: "(string \<times> string, string) CompletionOptions" where
  "two_sources =
     logOptions\<lparr>compiledMessages := Some [(''system'', ''Hello, world!'')]\<rparr>"

definition no_name_empty_template :: "(string \<times> string, string) CompletionOptions" where
  "no_name_empty_template = no_options\<lparr>templateName := Some [], promptTemplate := Some []\<rparr>"

definition empty_and_compiled :: "(string \<times> string, string) CompletionOptions" where
  "empty_and_compiled = empty_template\<lparr>compiledPrompt := Some ''Hello, world!''\<rparr>"

section \<open>The two phases of \<open>log\<close>\<close>

text \<open>
  The effects of destructuring the argument (the call of the generator, when \<open>logId\<close> is
  \<open>undefined\<close>), and the diagnostic that follows the request.
\<close>

definition destructuring_effects :: "('m, 'v) CompletionOptions \<Rightarrow> ('m, 'v, 'e, 'd) effect list" where
  "destructuring_effects r = (if logId r = None then [Uuidv4_call] else [])"

definition after_post ::
  "Completion \<Rightarrow> ('m, 'v, 'e, 'd) world \<Rightarrow> ('m, 'v) CompletionOptions \<Rightarrow> ('m, 'v, 'e, 'd) effect" where
  "after_post this w r =
     (case axios_post w (apiUrl this) (wire_payload w r) (bearer this) of
        Inr response \<Rightarrow> Console_log ''Completion logged successfully:'' (data response)
      | Inl err \<Rightarrow> Console_error ''Error logging completion:'' err)"

section \<open>The checks of \<open>log\<close> and the rules\<close>

lemma truthy_of_string: "truthy (of_string x) = (x \<noteq> None \<and> x \<noteq> Some [])"
  by (cases x) (simp_all add: of_string_def)

lemma truthy_of_array: "truthy (of_array x) = (x \<noteq> None)"
  by (cases x) (simp_all add: of_array_def)

lemma of_string_defined: "(of_string x \<noteq> Undefined) = (x \<noteq> None)"
  by (cases x) (simp_all add: of_string_def)

lemma of_array_defined: "(of_array x \<noteq> Undefined) = (x \<noteq> None)"
  by (cases x) (simp_all add: of_array_def)

lemma count_true_Cons: "count_true (b # bs) = (if b then Suc (count_true bs) else count_true bs)"
  by (simp add: count_true_def)

lemma count_true_Nil: "count_true [] = 0"
  by (simp add: count_true_def)

lemma count_defined:
  "length (filter (\<lambda>x. x \<noteq> Undefined) [of_string a, of_array b, of_string c, of_array d])
     = count_true [a \<noteq> None, b \<noteq> None, c \<noteq> None, d \<noteq> None]"
  by (simp add: count_true_Cons count_true_Nil of_string_defined of_array_defined)

lemma check_template_name:
  "(\<not> truthy (of_string (templateName r) :: ('m, 'v) js_value)) = (\<not> rule_template_name r)"
  by (simp add: rule_template_name_def truthy_of_string)

lemma check_required:
  "(\<not> truthy (of_string (promptTemplate r) :: ('m, 'v) js_value) \<and>
    \<not> truthy (of_array (messagesTemplate r) :: ('m, 'v) js_value) \<and>
    \<not> truthy (of_string (compiledPrompt r) :: ('m, 'v) js_value) \<and>
    \<not> truthy (of_array (compiledMessages r) :: ('m, 'v) js_value))
   = (\<not> rule_at_least_one_nonempty r)"
  by (simp add: rule_at_least_one_nonempty_def nonempty_sources_def count_true_Cons count_true_Nil
      truthy_of_string truthy_of_array)

lemma check_only_one:
  "(1 < length (filter (\<lambda>x. x \<noteq> Undefined)
      [of_string (promptTemplate r) :: ('m, 'v) js_value, of_array (messagesTemplate r),
       of_string (compiledPrompt r), of_array (compiledMessages r)]))
   = (\<not> rule_at_most_one r)"
  by (simp only: count_defined rule_at_most_one_def present_sources_def not_le)

lemma payload_literal:
  "[(''log_id'', JString (effective_logId w r)),
    (''template_name'', of_string (templateName r)),
    (''prompt_template'', of_string (promptTemplate r)),
    (''messages_template'', of_array (messagesTemplate r)),
    (''prompt_arguments'', of_record (promptArguments r)),
    (''model'', of_string (model r)),
    (''model_arguments'', of_record (modelArguments r)),
    (''output'', of_string (output_field r)),
    (''compiled_prompt'', of_string (compiledPrompt r)),
    (''compiled_messages'', of_array (compiledMessages r)),
    (''metadata'', of_record (metadata r)),
    (''parser'', of_string (parser r))] = wire_payload w r"
  by (simp add: wire_payload_def record_fields_def rename_def renaming_def)

lemma destructured:
  "(case logId r of None \<Rightarrow> (uuidv4 w, [Uuidv4_call]) | Some l \<Rightarrow> (l, []))
     = (effective_logId w r, destructuring_effects r)"
  by (cases "logId r") (simp_all add: effective_logId_def destructuring_effects_def)

text \<open>The body of \<open>log\<close>, check by check, in terms of the rules.\<close>

lemma log_unfolded:
  "log this w r =
     (if \<not> rule_template_name r then (Inl (Error msg_template_name), destructuring_effects r)
      else if \<not> rule_at_least_one_nonempty r then (Inl (Error msg_required), destructuring_effects r)
      else if \<not> rule_at_most_one r then (Inl (Error msg_only_one), destructuring_effects r)
      else (Inr (),
            destructuring_effects r @
            [Axios_post (apiUrl this) (wire_payload w r) (bearer this), after_post this w r]))"
  unfolding log_def destructured
  apply (simp only: Let_def prod.case check_template_name check_required check_only_one
      payload_literal)
  apply (simp add: msg_template_name_def msg_required_def msg_only_one_def
      after_post_def bearer_def split: sum.split)
  done

lemma nonempty_le_present: "nonempty_sources r \<le> present_sources r"
  by (simp add: nonempty_sources_def present_sources_def count_true_Cons count_true_Nil)

lemma nonempty_eq_present:
  "promptTemplate r \<noteq> Some [] \<Longrightarrow> compiledPrompt r \<noteq> Some [] \<Longrightarrow>
   nonempty_sources r = present_sources r"
  by (simp add: nonempty_sources_def present_sources_def count_true_Cons count_true_Nil)

lemma rejected_effects:
  "\<not> passes_validation r \<Longrightarrow>
   isl (fst (log this w r)) \<and> snd (log this w r) = destructuring_effects r"
  by (simp add: log_unfolded passes_validation_def)

lemma accepted_effects:
  "passes_validation r \<Longrightarrow>
   log this w r =
     (Inr (), destructuring_effects r @
              [Axios_post (apiUrl this) (wire_payload w r) (bearer this), after_post this w r])"
  by (simp add: log_unfolded passes_validation_def)

lemma posts_destructuring: "posts (destructuring_effects r @ es) = posts es"
  by (simp add: destructuring_effects_def)

lemma console_destructuring: "console (destructuring_effects r @ es) = console es"
  by (simp add: destructuring_effects_def)

lemma uuid_calls_destructuring:
  "uuid_calls (destructuring_effects r @ es) = (if logId r = None then 1 else 0) + uuid_calls es"
  by (simp add: destructuring_effects_def)

lemma posts_after_post: "posts [after_post this w r] = []"
  by (simp add: after_post_def split: sum.split)

lemma console_after_post: "console [after_post this w r] = [after_post this w r]"
  by (simp add: after_post_def split: sum.split)

lemma uuid_calls_after_post: "uuid_calls [after_post this w r] = 0"
  by (simp add: after_post_def split: sum.split)

lemma accepted_posts:
  "passes_validation r \<Longrightarrow>
   posts (snd (log this w r)) = [(apiUrl this, wire_payload w r, bearer this)]"
  using posts_after_post [of this w r]
  by (simp add: accepted_effects posts_destructuring)

lemma accepted_console:
  "passes_validation r \<Longrightarrow> console (snd (log this w r)) = [after_post this w r]"
  using console_after_post [of this w r]
  by (simp add: accepted_effects console_destructuring)

lemma violated_iff: "(first_violated truthy_rules r \<noteq> None) = (\<not> passes_validation r)"
  by (simp add: truthy_rules_def passes_validation_def)

subsection \<open>Evaluating the test inputs\<close>

lemmas fixtures =
  test_completion_def no_options_def logOptions_def resolving_world_def rejecting_world_def
  empty_template_def two_empty_def two_sources_def no_name_empty_template_def
  empty_and_compiled_def

lemmas rules =
  rule_template_name_def rule_at_least_one_def rule_at_least_one_nonempty_def
  rule_at_most_one_def present_sources_def nonempty_sources_def count_true_Cons count_true_Nil
  passes_validation_def

lemmas evaluation =
  log_def Let_def of_string_def of_array_def of_record_def

lemma passes_fixture: "passes_validation logOptions"
  by (simp add: rules fixtures)

section \<open>Validation\<close>

text \<open>
  A record whose only prompt source is \<open>promptTemplate = ""\<close> has exactly one of the four
  fields present, and \<open>log\<close> rejects it with the "is required" message: the check of
  lines 90 to 95 tests truthiness, and the empty string is falsy. No request is made.
\<close>

theorem log_rejects_single_empty_source:
  "rule_template_name empty_template \<and> present_sources empty_template = 1 \<and>
   fst (log test_completion resolving_world empty_template) = Inl (Error msg_required) \<and>
   posts (snd (log test_completion resolving_world empty_template)) = []"
  by (simp add: evaluation rules fixtures msg_required_def)

text \<open>
  Claim C1, amended: for every record whose \<open>templateName\<close> is non-empty and in which
  exactly one of \<open>promptTemplate\<close>, \<open>messagesTemplate\<close>, \<open>compiledPrompt\<close>,
  \<open>compiledMessages\<close> is present, that one not being the empty string, the validation of
  \<open>log\<close> passes: neither the "is required" nor the "is allowed" error is thrown, the
  promise resolves, and the payload is built and posted.
\<close>

theorem log_accepts_single_nonempty_source:
  assumes "rule_template_name r" and "present_sources r = 1"
    and "promptTemplate r \<noteq> Some []" and "compiledPrompt r \<noteq> Some []"
  shows "fst (log this w r) \<noteq> Inl (Error msg_required) \<and>
         fst (log this w r) \<noteq> Inl (Error msg_only_one) \<and>
         fst (log this w r) = Inr () \<and>
         map (fst \<circ> snd) (posts (snd (log this w r))) = [wire_payload w r]"
proof -
  from assms have "nonempty_sources r = 1"
    by (simp add: nonempty_eq_present)
  with assms have ok: "passes_validation r"
    by (simp add: passes_validation_def rule_at_least_one_nonempty_def rule_at_most_one_def)
  then have "fst (log this w r) = Inr ()"
    by (simp add: accepted_effects)
  moreover from ok have "map (fst \<circ> snd) (posts (snd (log this w r))) = [wire_payload w r]"
    by (simp add: accepted_posts)
  ultimately show ?thesis
    by simp
qed

theorem log_accepts_single_nonempty_source_witness:
  "rule_template_name logOptions \<and> present_sources logOptions = 1 \<and>
   promptTemplate logOptions \<noteq> Some [] \<and> compiledPrompt logOptions \<noteq> Some [] \<and>
   fst (log test_completion rejecting_world logOptions) = Inr () \<and>
   map (fst \<circ> snd) (posts (snd (log test_completion rejecting_world logOptions)))
     = [wire_payload rejecting_world logOptions]"
proof -
  have h1: "rule_template_name logOptions" and h2: "present_sources logOptions = 1"
    and h3: "promptTemplate logOptions \<noteq> Some []" and h4: "compiledPrompt logOptions \<noteq> Some []"
    by (simp_all add: rules fixtures)
  from log_accepts_single_nonempty_source [OF h1 h2 h3 h4, of test_completion rejecting_world]
    h1 h2 h3 h4
  show ?thesis by simp
qed

text \<open>
  With the three rules as the specification words them (a field is present when it is
  not \<open>undefined\<close>), the record with \<open>promptTemplate = ""\<close> alone violates no rule, and
  \<open>log\<close> still reports the "is required" error.
\<close>

theorem log_error_without_violated_rule:
  "outcome_of (first_violated stated_rules empty_template) = Inr () \<and>
   fst (log test_completion resolving_world empty_template) = Inl (Error msg_required)"
  by (simp add: evaluation rules fixtures stated_rules_def outcome_of_def msg_required_def)

text \<open>
  Claim C2, amended: \<open>log\<close> performs exactly three validation checks, synchronously and
  in this order: (1) \<open>templateName\<close> present and non-empty, failing with "Template name
  is required."; (2) at least one of the four prompt-source fields present and not the
  empty string, failing with "Either promptTemplate, messagesTemplate, compiledPrompt, or
  compiledMessages is required."; (3) at most one of them present, failing with "Only one
  of promptTemplate, messagesTemplate, compiledPrompt, or compiledMessages is allowed.".
  For every record the first violated rule alone determines the single error reported;
  at most one error is ever thrown per call. In the model: the outcome of the promise is
  that of the first violated rule, it is one of the three errors or the resolution, and a
  call that a rule rejects has issued no request and written nothing to the console.
\<close>

theorem log_reports_first_violated_rule:
  "fst (log this w r) = outcome_of (first_violated truthy_rules r) \<and>
   fst (log this w r) \<in> {Inr (), Inl (Error msg_template_name), Inl (Error msg_required),
                          Inl (Error msg_only_one)} \<and>
   (first_violated truthy_rules r \<noteq> None \<longrightarrow>
      posts (snd (log this w r)) = [] \<and> console (snd (log this w r)) = [])"
proof -
  have outcome: "fst (log this w r) = outcome_of (first_violated truthy_rules r)"
    by (simp add: log_unfolded truthy_rules_def outcome_of_def)
  have one_of: "fst (log this w r) \<in> {Inr (), Inl (Error msg_template_name),
      Inl (Error msg_required), Inl (Error msg_only_one)}"
    by (simp add: log_unfolded)
  have "posts (snd (log this w r)) = [] \<and> console (snd (log this w r)) = []"
    if "first_violated truthy_rules r \<noteq> None"
  proof -
    from that have "\<not> passes_validation r"
      using violated_iff [of r] by blast
    then have "snd (log this w r) = destructuring_effects r"
      by (simp add: rejected_effects)
    then show ?thesis
      using posts_destructuring [of r "[]"] console_destructuring [of r "[]"]
      by simp
  qed
  with outcome one_of show ?thesis
    by blast
qed

theorem log_reports_first_violated_rule_witness:
  "fst (log test_completion resolving_world two_sources) = Inl (Error msg_only_one) \<and>
   posts (snd (log test_completion resolving_world two_sources)) = [] \<and>
   console (snd (log test_completion resolving_world two_sources)) = [] \<and>
   fst (log test_completion resolving_world no_options) = Inl (Error msg_template_name) \<and>
   fst (log test_completion resolving_world logOptions) = Inr ()"
  using log_reports_first_violated_rule [of test_completion resolving_world two_sources]
    log_reports_first_violated_rule [of test_completion resolving_world no_options]
    log_reports_first_violated_rule [of test_completion resolving_world logOptions]
  by (simp add: truthy_rules_def outcome_of_def rules fixtures)

text \<open>
  A record that provides two of the four fields, both the empty string, is rejected with
  the "is required" message, not with the "is allowed" one: the check of lines 90 to 95
  comes first and finds no truthy field.
\<close>

theorem log_two_empty_sources_required:
  "rule_template_name two_empty \<and> 2 \<le> present_sources two_empty \<and>
   fst (log test_completion resolving_world two_empty) = Inl (Error msg_required) \<and>
   fst (log test_completion resolving_world two_empty) \<noteq> Inl (Error msg_only_one)"
  by (simp add: evaluation rules fixtures msg_required_def msg_only_one_def)

text \<open>
  Claim C3, amended: for every record with a non-empty \<open>templateName\<close> that provides two
  or more of the four fields, at least one of them not the empty string, \<open>log\<close> rejects
  with "Only one of promptTemplate, messagesTemplate, compiledPrompt, or compiledMessages
  is allowed.".
\<close>

theorem log_rejects_two_sources:
  assumes "rule_template_name r" and "2 \<le> present_sources r" and "1 \<le> nonempty_sources r"
  shows "fst (log this w r) = Inl (Error msg_only_one)"
  using assms
  by (simp add: log_unfolded rule_at_least_one_nonempty_def rule_at_most_one_def)

theorem log_rejects_two_sources_witness:
  "rule_template_name two_sources \<and> 2 \<le> present_sources two_sources \<and>
   1 \<le> nonempty_sources two_sources \<and>
   fst (log test_completion resolving_world two_sources) = Inl (Error msg_only_one)"
proof -
  have h1: "rule_template_name two_sources" and h2: "2 \<le> present_sources two_sources"
    and h3: "1 \<le> nonempty_sources two_sources"
    by (simp_all add: rules fixtures)
  from log_rejects_two_sources [OF h1 h2 h3, of test_completion resolving_world] h1 h2 h3
  show ?thesis by simp
qed

text \<open>
  Claim C4: for every record that violates any of the three validation rules (rule 2
  read either way: no field present, or no field truthy), \<open>log\<close> rejects, no HTTP POST
  is issued and neither \<open>console.log\<close> nor \<open>console.error\<close> is called.
\<close>

theorem log_rejection_has_no_io:
  assumes "\<not> rule_template_name r \<or> \<not> rule_at_least_one r \<or>
           \<not> rule_at_least_one_nonempty r \<or> \<not> rule_at_most_one r"
  shows "isl (fst (log this w r)) \<and> posts (snd (log this w r)) = [] \<and>
         console (snd (log this w r)) = []"
proof -
  have "rule_at_least_one_nonempty r \<Longrightarrow> rule_at_least_one r"
    using nonempty_le_present [of r]
    by (simp add: rule_at_least_one_nonempty_def rule_at_least_one_def)
  with assms have "\<not> passes_validation r"
    by (auto simp add: passes_validation_def)
  then have "isl (fst (log this w r))" and "snd (log this w r) = destructuring_effects r"
    by (simp_all add: rejected_effects)
  then show ?thesis
    using posts_destructuring [of r "[]"] console_destructuring [of r "[]"]
    by simp
qed

theorem log_rejection_has_no_io_witness:
  "\<not> rule_template_name no_options \<and>
   isl (fst (log test_completion resolving_world no_options)) \<and>
   posts (snd (log test_completion resolving_world no_options)) = [] \<and>
   console (snd (log test_completion resolving_world no_options)) = []"
proof -
  have h: "\<not> rule_template_name no_options"
    by (simp add: rules fixtures)
  then have "\<not> rule_template_name no_options \<or> \<not> rule_at_least_one no_options \<or>
           \<not> rule_at_least_one_nonempty no_options \<or> \<not> rule_at_most_one no_options"
    by simp
  from log_rejection_has_no_io [OF this, of test_completion resolving_world] h
  show ?thesis by simp
qed

section \<open>Transmission\<close>

text \<open>
  Claim C5: for every record that passes the validation of \<open>log\<close>, the promise resolves
  whatever the outcome of the request; when the HTTP POST of the payload to \<open>apiUrl\<close>
  fails with an error, that request is the one \<open>log\<close> has issued, the error is not
  thrown again, and the console output of the call is exactly one \<open>console.error\<close> of
  the prefix "Error logging completion:" and that error.
\<close>

theorem log_resolves_on_transport_failure:
  assumes "passes_validation r"
  shows "fst (log this w r) = Inr () \<and>
         (\<forall>err.
            axios_post w (apiUrl this) (wire_payload w r)
              [(''Authorization'', ''Bearer '' @ apiKey this)] = Inl err \<longrightarrow>
            posts (snd (log this w r)) =
              [(apiUrl this, wire_payload w r, [(''Authorization'', ''Bearer '' @ apiKey this)])] \<and>
            console (snd (log this w r)) = [Console_error ''Error logging completion:'' err])"
proof -
  from assms have "fst (log this w r) = Inr ()"
    by (simp add: accepted_effects)
  moreover from assms
  have "posts (snd (log this w r)) = [(apiUrl this, wire_payload w r, bearer this)]"
    and "console (snd (log this w r)) = [after_post this w r]"
    by (simp_all add: accepted_posts accepted_console)
  ultimately show ?thesis
    by (simp add: after_post_def bearer_def)
qed

theorem log_resolves_on_transport_failure_witness:
  "passes_validation logOptions \<and>
   axios_post rejecting_world (apiUrl test_completion) (wire_payload rejecting_world logOptions)
     [(''Authorization'', ''Bearer '' @ apiKey test_completion)] = Inl ''Network Error'' \<and>
   fst (log test_completion rejecting_world logOptions) = Inr () \<and>
   console (snd (log test_completion rejecting_world logOptions))
     = [Console_error ''Error logging completion:'' ''Network Error'']"
proof -
  have fails: "axios_post rejecting_world (apiUrl test_completion)
      (wire_payload rejecting_world logOptions)
      [(''Authorization'', ''Bearer '' @ apiKey test_completion)] = Inl ''Network Error''"
    by (simp add: rejecting_world_def)
  from log_resolves_on_transport_failure [OF passes_fixture, of test_completion rejecting_world] fails passes_fixture
  show ?thesis by blast
qed

text \<open>
  Claim C6: for every record that passes validation, the payload posted is the input
  record with its keys renamed by the table (\<open>logId\<close> to \<open>log_id\<close>, \<open>templateName\<close> to
  \<open>template_name\<close>, \<open>promptTemplate\<close> to \<open>prompt_template\<close>, \<open>messagesTemplate\<close> to
  \<open>messages_template\<close>, \<open>promptArguments\<close> to \<open>prompt_arguments\<close>, \<open>modelArguments\<close> to
  \<open>model_arguments\<close>, \<open>compiledPrompt\<close> to \<open>compiled_prompt\<close>, \<open>compiledMessages\<close> to
  \<open>compiled_messages\<close>; \<open>model\<close>, \<open>output\<close>, \<open>metadata\<close>, \<open>parser\<close> unchanged), and
  \<open>log_id\<close> is the supplied \<open>logId\<close> when there is one, else the value of the generator.
\<close>

theorem log_payload_renames_fields:
  assumes "passes_validation r"
  shows "map (fst \<circ> snd) (posts (snd (log this w r))) = [wire_payload w r] \<and>
         map fst (wire_payload w r) =
           [''log_id'', ''template_name'', ''prompt_template'', ''messages_template'',
            ''prompt_arguments'', ''model'', ''model_arguments'', ''output'',
            ''compiled_prompt'', ''compiled_messages'', ''metadata'', ''parser''] \<and>
         map_of (wire_payload w r) ''log_id'' =
           Some (JString (case logId r of Some l \<Rightarrow> l | None \<Rightarrow> uuidv4 w))"
proof -
  from assms have "map (fst \<circ> snd) (posts (snd (log this w r))) = [wire_payload w r]"
    by (simp add: accepted_posts)
  moreover have "map fst (wire_payload w r) =
           [''log_id'', ''template_name'', ''prompt_template'', ''messages_template'',
            ''prompt_arguments'', ''model'', ''model_arguments'', ''output'',
            ''compiled_prompt'', ''compiled_messages'', ''metadata'', ''parser'']"
    by (simp add: payload_literal [symmetric])
  moreover have "map_of (wire_payload w r) ''log_id'' =
           Some (JString (case logId r of Some l \<Rightarrow> l | None \<Rightarrow> uuidv4 w))"
    by (simp add: payload_literal [symmetric] effective_logId_def)
  ultimately show ?thesis
    by simp
qed

theorem log_payload_renames_fields_witness:
  "passes_validation logOptions \<and>
   map (fst \<circ> snd) (posts (snd (log test_completion resolving_world logOptions))) =
     [[(''log_id'', JString ''110ec58a-a0f2-4ac4-8393-c866d813b8d1''),
       (''template_name'', JString ''testTemplate''),
       (''prompt_template'', JString ''Hello, {{name}}''),
       (''messages_template'', Undefined),
       (''prompt_arguments'', JObject [(''name'', ''world'')]),
       (''model'', JString ''test_model''),
       (''model_arguments'', Undefined),
       (''output'', JString ''Hello, world!''),
       (''compiled_prompt'', Undefined),
       (''compiled_messages'', Undefined),
       (''metadata'', Undefined),
       (''parser'', JString ''handlebars'')]]"
  using log_payload_renames_fields [OF passes_fixture, of test_completion resolving_world]
    passes_fixture
  by (simp add: payload_literal [symmetric] effective_logId_def fixtures
      of_string_def of_array_def of_record_def)

text \<open>
  Claim C7: for every record that passes validation, \<open>log\<close> issues exactly one HTTP POST,
  to \<open>apiUrl\<close>, with the wire payload as body and the header \<open>Authorization\<close> set to
  "Bearer " followed by \<open>apiKey\<close>; when the request succeeds, the console output of the
  call is one \<open>console.log\<close> of the prefix "Completion logged successfully:" and the
  data of the response.
\<close>

theorem log_posts_once_with_bearer:
  assumes "passes_validation r"
  shows "posts (snd (log this w r)) =
           [(apiUrl this, wire_payload w r, [(''Authorization'', ''Bearer '' @ apiKey this)])] \<and>
         (\<forall>response.
            axios_post w (apiUrl this) (wire_payload w r)
              [(''Authorization'', ''Bearer '' @ apiKey this)] = Inr response \<longrightarrow>
            console (snd (log this w r)) =
              [Console_log ''Completion logged successfully:'' (data response)])"
  using assms
  by (simp add: accepted_posts accepted_console after_post_def bearer_def)

theorem log_posts_once_with_bearer_witness:
  "passes_validation logOptions \<and>
   map (\<lambda>(url, body, hs). (url, hs)) (posts (snd (log test_completion resolving_world logOptions)))
     = [(''http://testurl.com'', [(''Authorization'', ''Bearer test_api_key'')])] \<and>
   console (snd (log test_completion resolving_world logOptions))
     = [Console_log ''Completion logged successfully:'' ''Success'']"
  using log_posts_once_with_bearer [OF passes_fixture, of test_completion resolving_world]
    passes_fixture
  by (simp add: test_completion_def resolving_world_def)

section \<open>The generated identifier\<close>

text \<open>
  The object \<open>{}\<close> has no \<open>logId\<close> and fails validation, and the generator has been
  called once when \<open>log\<close> rejects it: the default of the destructuring pattern is
  evaluated before the first check.
\<close>

theorem uuid_generated_before_rejection:
  "logId no_options = None \<and> \<not> passes_validation no_options \<and>
   fst (log test_completion resolving_world no_options) = Inl (Error msg_template_name) \<and>
   uuid_calls (snd (log test_completion resolving_world no_options)) = 1"
  by (simp add: evaluation rules fixtures msg_template_name_def)

text \<open>
  Claim C8, amended: the generator is called exactly once when \<open>logId\<close> is absent from
  the record and never when it is supplied; the call is the first effect of \<open>log\<close>,
  made while the argument is destructured and before the checks, so that a record
  without \<open>logId\<close> that fails validation is rejected after the generator has been called
  once.
\<close>

theorem uuid_generated_while_destructuring:
  "uuid_calls (snd (log this w r)) = (if logId r = None then 1 else 0) \<and>
   (logId r = None \<longrightarrow> take 1 (snd (log this w r)) = [Uuidv4_call]) \<and>
   (logId r = None \<and> \<not> passes_validation r \<longrightarrow> snd (log this w r) = [Uuidv4_call])"
proof (cases "passes_validation r")
  case True
  then show ?thesis
    using uuid_calls_after_post [of this w r]
    by (simp add: accepted_effects uuid_calls_destructuring)
      (simp add: destructuring_effects_def)
next
  case False
  then have "snd (log this w r) = destructuring_effects r"
    by (simp add: rejected_effects)
  then show ?thesis
    by (simp add: destructuring_effects_def)
qed

theorem uuid_generated_while_destructuring_witness:
  "logId no_options = None \<and> \<not> passes_validation no_options \<and>
   snd (log test_completion resolving_world no_options) = [Uuidv4_call]"
proof -
  have "logId no_options = None" and "\<not> passes_validation no_options"
    by (simp_all add: rules fixtures)
  with uuid_generated_while_destructuring [of test_completion resolving_world no_options]
  show ?thesis by simp
qed

section \<open>Construction\<close>

text \<open>
  Claim C9: the constructor resolves the key as the explicit value if given, else the
  value of \<open>COMPLETION_API_KEY\<close>, else the empty string; it throws if and only if the
  resolved key is empty, with a message that contains "API key is missing"; otherwise it
  returns the instance with that key and with \<open>apiUrl\<close> the explicit value if given, else
  \<open>DEFAULT_API_URL\<close>.
\<close>

theorem constructor_resolves_key_and_url:
  "isl (constructor DEFAULT_API_URL COMPLETION_API_KEY options)
     = (resolved_apiKey COMPLETION_API_KEY options = []) \<and>
   (resolved_apiKey COMPLETION_API_KEY options = [] \<longrightarrow>
      (\<exists>msg. constructor DEFAULT_API_URL COMPLETION_API_KEY options = Inl (Error msg) \<and>
             sublist ''API key is missing'' msg)) \<and>
   (resolved_apiKey COMPLETION_API_KEY options \<noteq> [] \<longrightarrow>
      constructor DEFAULT_API_URL COMPLETION_API_KEY options =
        Inr \<lparr>apiKey = resolved_apiKey COMPLETION_API_KEY options,
             apiUrl = resolved_apiUrl DEFAULT_API_URL options\<rparr>)"
proof -
  have key: "(case nullish (nullish (Option.bind options options_apiKey) COMPLETION_API_KEY)
                     (Some [])
              of Some k \<Rightarrow> k | None \<Rightarrow> []) = resolved_apiKey COMPLETION_API_KEY options"
    by (simp add: nullish_def resolved_apiKey_def split: option.split)
  have url: "(case nullish (Option.bind options options_apiUrl) (Some DEFAULT_API_URL)
              of Some u \<Rightarrow> u | None \<Rightarrow> DEFAULT_API_URL) = resolved_apiUrl DEFAULT_API_URL options"
    by (simp add: nullish_def resolved_apiUrl_def split: option.split)
  have "prefix ''API key is missing''
     ''API key is missing. Please provide an API key or set the COMPLETION_API_KEY environment variable.''"
    by simp
  then have "sublist ''API key is missing''
     ''API key is missing. Please provide an API key or set the COMPLETION_API_KEY environment variable.''"
    by (rule prefix_imp_sublist)
  then show ?thesis
    unfolding constructor_def key url
    by (simp add: Let_def)
qed

theorem constructor_resolves_key_and_url_witness:
  "resolved_apiKey None (Some \<lparr>options_apiKey = Some ''test_api_key'',
                               options_apiUrl = Some ''http://testurl.com''\<rparr>) \<noteq> [] \<and>
   constructor ''DEFAULT_API_URL'' None
     (Some \<lparr>options_apiKey = Some ''test_api_key'', options_apiUrl = Some ''http://testurl.com''\<rparr>)
     = Inr test_completion \<and>
   resolved_apiKey None None = [] \<and>
   isl (constructor ''DEFAULT_API_URL'' None None)"
  using constructor_resolves_key_and_url [of "''DEFAULT_API_URL''" None
      "Some \<lparr>options_apiKey = Some ''test_api_key'', options_apiUrl = Some ''http://testurl.com''\<rparr>"]
    constructor_resolves_key_and_url [of "''DEFAULT_API_URL''" None None]
  by (simp add: resolved_apiKey_def resolved_apiUrl_def test_completion_def)

section \<open>The two notions of presence\<close>

text \<open>
  A record whose only prompt source is \<open>promptTemplate = ""\<close> and whose \<open>templateName\<close>
  is empty is rejected with "Template name is required.", not with the "is required"
  message of the prompt sources: the check of the template name comes first.
\<close>

theorem empty_promptTemplate_without_name:
  "promptTemplate no_name_empty_template = Some [] \<and>
   messagesTemplate no_name_empty_template = None \<and>
   compiledPrompt no_name_empty_template = None \<and>
   compiledMessages no_name_empty_template = None \<and>
   fst (log test_completion resolving_world no_name_empty_template) = Inl (Error msg_template_name) \<and>
   fst (log test_completion resolving_world no_name_empty_template) \<noteq> Inl (Error msg_required)"
  by (simp add: evaluation rules fixtures msg_template_name_def msg_required_def)

text \<open>
  Claim C10, amended: the at-least-one check takes a falsy prompt source (the empty
  string) as absent, and the at-most-one check counts every source that is not
  \<open>undefined\<close>. So, for every record with a non-empty \<open>templateName\<close> and
  \<open>promptTemplate = ""\<close>: when the other three sources are \<open>undefined\<close>, one of the four
  fields is present and \<open>log\<close> throws the "Either ... is required." error; and when
  another source is truthy, the empty \<open>promptTemplate\<close> is counted and \<open>log\<close> throws the
  "Only one of ... is allowed." error.
\<close>

theorem empty_promptTemplate_required_error:
  assumes "rule_template_name r" and "promptTemplate r = Some []"
  shows "(messagesTemplate r = None \<and> compiledPrompt r = None \<and> compiledMessages r = None \<longrightarrow>
            present_sources r = 1 \<and> fst (log this w r) = Inl (Error msg_required)) \<and>
         (1 \<le> nonempty_sources r \<longrightarrow> fst (log this w r) = Inl (Error msg_only_one))"
proof -
  have "messagesTemplate r = None \<and> compiledPrompt r = None \<and> compiledMessages r = None \<longrightarrow>
          present_sources r = 1 \<and> nonempty_sources r = 0"
    using assms
    by (simp add: present_sources_def nonempty_sources_def count_true_Cons count_true_Nil)
  moreover have "1 \<le> nonempty_sources r \<longrightarrow> 2 \<le> present_sources r"
    using assms
    by (simp add: present_sources_def nonempty_sources_def count_true_Cons count_true_Nil)
  ultimately show ?thesis
    using assms
    by (auto simp add: log_unfolded rule_at_least_one_nonempty_def rule_at_most_one_def)
qed

theorem empty_promptTemplate_required_error_witness:
  "rule_template_name empty_template \<and> promptTemplate empty_template = Some [] \<and>
   present_sources empty_template = 1 \<and>
   fst (log test_completion resolving_world empty_template) = Inl (Error msg_required) \<and>
   rule_template_name empty_and_compiled \<and> promptTemplate empty_and_compiled = Some [] \<and>
   1 \<le> nonempty_sources empty_and_compiled \<and>
   fst (log test_completion resolving_world empty_and_compiled) = Inl (Error msg_only_one)"
proof -
  have a1: "rule_template_name empty_template" and a2: "promptTemplate empty_template = Some []"
    and a3: "messagesTemplate empty_template = None \<and> compiledPrompt empty_template = None \<and>
             compiledMessages empty_template = None"
    by (simp_all add: rules fixtures)
  have b1: "rule_template_name empty_and_compiled"
    and b2: "promptTemplate empty_and_compiled = Some []"
    and b3: "1 \<le> nonempty_sources empty_and_compiled"
    by (simp_all add: rules fixtures)
  from empty_promptTemplate_required_error [OF a1 a2, of test_completion resolving_world]
    empty_promptTemplate_required_error [OF b1 b2, of test_completion resolving_world]
    a1 a2 a3 b1 b2 b3
  show ?thesis by simp
qed

end
